theory Spec2Isabelle
  imports Main
begin

section \<open>JavaScript values and the host environment\<close>

text \<open>
  The parser of the ECS timeline builder (\<^verbatim>\<open>js/parser.js\<close>) works on decoded JSON. A value
  is \<^verbatim>\<open>undefined\<close>, \<^verbatim>\<open>null\<close>, a boolean, a number, a string, an array or an object.
  Numbers are modelled as integers (fractions, NaN and values beyond the safe integer range
  are outside the model), strings as ASCII character lists, objects as association lists of
  their own properties (the first binding of a key is the property).
\<close>

datatype json =
    JUndefined
  | JNull
  | JBool bool
  | JNum int
  | JStr string
  | JArr "json list"
  | JObj "(string \<times> json) list"

text \<open>Every exception the parser can raise: the \<^verbatim>\<open>TypeError\<close> of the runtime and the
  \<^verbatim>\<open>Error\<close>s thrown by \<^verbatim>\<open>parseEvents\<close> (named after their messages).\<close>

datatype error =
    TypeError
  | FailedToParseJsonArray
  | MultipleJsonObjects
  | FailedToParseJson
  | NotValidJson
  | InvalidInputType

text \<open>What the engine takes from its host: \<^verbatim>\<open>JSON.parse\<close> (\<open>None\<close> is a SyntaxError),
  \<^verbatim>\<open>Date.parse\<close> (\<open>None\<close> is NaN; the accepted formats are implementation-defined) and the
  wall clock \<^verbatim>\<open>Date.now()\<close>.\<close>

record host_env =
  JSON_parse :: "string \<Rightarrow> json option"
  Date_parse :: "string \<Rightarrow> int option"
  Date_now :: int

text \<open>Truthiness: \<^verbatim>\<open>undefined\<close>, \<^verbatim>\<open>null\<close>, \<^verbatim>\<open>false\<close>, \<^verbatim>\<open>0\<close> and \<^verbatim>\<open>''\<close> are falsy, everything
  else (also \<^verbatim>\<open>[]\<close> and \<^verbatim>\<open>{}\<close>) is truthy.\<close>

fun truthy :: "json \<Rightarrow> bool" where
  "truthy JUndefined = False"
| "truthy JNull = False"
| "truthy (JBool b) = b"
| "truthy (JNum n) = (n \<noteq> 0)"
| "truthy (JStr s) = (s \<noteq> [])"
| "truthy (JArr xs) = True"
| "truthy (JObj kvs) = True"

text \<open>\<^verbatim>\<open>a || b\<close>\<close>

definition js_or :: "json \<Rightarrow> json \<Rightarrow> json" where
  "js_or a b = (if truthy a then a else b)"

text \<open>\<^verbatim>\<open>current[key]\<close> on a value that is neither \<^verbatim>\<open>null\<close> nor \<^verbatim>\<open>undefined\<close>. The keys
  the parser reads are the segments of its literal paths and \<^verbatim>\<open>_id\<close>, \<^verbatim>\<open>_source\<close>; none of
  them is an array index, \<^verbatim>\<open>length\<close> or the name of a built-in prototype member, so the read
  finds an own property of an object or yields \<^verbatim>\<open>undefined\<close>.\<close>

fun getProp :: "json \<Rightarrow> string \<Rightarrow> json" where
  "getProp (JObj kvs) key = (case map_of kvs key of Some v \<Rightarrow> v | None \<Rightarrow> JUndefined)"
| "getProp v key = JUndefined"

text \<open>\<^verbatim>\<open>path.split('.')\<close>\<close>

fun split_on :: "char \<Rightarrow> string \<Rightarrow> string list" where
  "split_on sep [] = [[]]"
| "split_on sep (c # cs) =
     (if c = sep then [] # split_on sep cs
      else (case split_on sep cs of
              w # ws \<Rightarrow> (c # w) # ws
            | [] \<Rightarrow> [[c]]))"

section \<open>Field accessor\<close>

text \<open>The loop of \<^verbatim>\<open>getNestedValue\<close>: \<open>None\<close> is the early \<^verbatim>\<open>return defaultValue\<close> taken
  when the current value is \<^verbatim>\<open>null\<close> or \<^verbatim>\<open>undefined\<close> before a key is read.\<close>

fun walkKeys :: "json \<Rightarrow> string list \<Rightarrow> json option" where
  "walkKeys current [] = Some current"
| "walkKeys current (key # keys) =
     (if current = JNull \<or> current = JUndefined then None
      else walkKeys (getProp current key) keys)"

definition getNestedValue :: "json \<Rightarrow> string \<Rightarrow> json \<Rightarrow> json" where
  "getNestedValue obj path defaultValue =
     (if \<not> truthy obj \<or> path = [] then defaultValue
      else (case walkKeys obj (split_on CHR ''.'' path) of
              None \<Rightarrow> defaultValue
            | Some current \<Rightarrow> if current \<noteq> JUndefined then current else defaultValue))"

fun normalizeValue :: "json \<Rightarrow> json" where
  "normalizeValue (JArr []) = JNull"
| "normalizeValue (JArr (v # vs)) = v"
| "normalizeValue v = v"

definition getNestedString :: "json \<Rightarrow> string \<Rightarrow> json \<Rightarrow> json" where
  "getNestedString obj path defaultValue = normalizeValue (getNestedValue obj path defaultValue)"

fun getFirstValue :: "json \<Rightarrow> string list \<Rightarrow> json \<Rightarrow> json" where
  "getFirstValue obj [] defaultValue = defaultValue"
| "getFirstValue obj (path # paths) defaultValue =
     (let v = getNestedValue obj path JNull
      in if v \<noteq> JNull \<and> v \<noteq> JUndefined \<and> v \<noteq> JStr [] then v
         else getFirstValue obj paths defaultValue)"

definition getFirstString :: "json \<Rightarrow> string list \<Rightarrow> json \<Rightarrow> json" where
  "getFirstString obj paths defaultValue = normalizeValue (getFirstValue obj paths defaultValue)"

section \<open>Strings and conversions\<close>

text \<open>Decimal digits of a number, as \<^verbatim>\<open>String(n)\<close> prints an integer.\<close>

definition digit :: "nat \<Rightarrow> char" where
  "digit d = ''0123456789'' ! d"

fun show_nat :: "nat \<Rightarrow> string" where
  "show_nat n = (if n < 10 then [digit n] else show_nat (n div 10) @ [digit (n mod 10)])"

declare show_nat.simps [simp del]

definition show_int :: "int \<Rightarrow> string" where
  "show_int i = (if i < 0 then CHR ''-'' # show_nat (nat (- i)) else show_nat (nat i))"

text \<open>\<^verbatim>\<open>xs.join(',')\<close> of already converted elements.\<close>

fun join_comma :: "string list \<Rightarrow> string" where
  "join_comma [] = []"
| "join_comma [s] = s"
| "join_comma (s # t # ts) = s @ CHR '','' # join_comma (t # ts)"

text \<open>String conversion (template literals, \<^verbatim>\<open>+\<close> with a string, property keys, the
  argument of \<^verbatim>\<open>new Date\<close>). An array joins its elements, \<^verbatim>\<open>null\<close> and \<^verbatim>\<open>undefined\<close> elements
  as the empty string; an object prints as \<^verbatim>\<open>[object Object]\<close> through the inherited
  \<^verbatim>\<open>toString\<close>. An object with an own property \<^verbatim>\<open>toString\<close> (never callable in decoded JSON)
  has no primitive value: the conversion raises a TypeError, also from inside an array.\<close>

fun toStr :: "json \<Rightarrow> string" where
  "toStr JUndefined = ''undefined''"
| "toStr JNull = ''null''"
| "toStr (JBool b) = (if b then ''true'' else ''false'')"
| "toStr (JNum n) = show_int n"
| "toStr (JStr s) = s"
| "toStr (JArr xs) =
     join_comma (map (\<lambda>x. if x = JNull \<or> x = JUndefined then [] else toStr x) xs)"
| "toStr (JObj kvs) = ''[object Object]''"

fun stringifiable :: "json \<Rightarrow> bool" where
  "stringifiable (JArr xs) = list_all stringifiable xs"
| "stringifiable (JObj kvs) = (map_of kvs ''toString'' = None)"
| "stringifiable v = True"

definition ToString :: "json \<Rightarrow> error + string" where
  "ToString v = (if stringifiable v then Inr (toStr v) else Inl TypeError)"

text \<open>\<^verbatim>\<open>s.startsWith(p)\<close>, \<^verbatim>\<open>s.includes(p)\<close>, and the case mappings on ASCII letters.\<close>

definition startsWith :: "string \<Rightarrow> string \<Rightarrow> bool" where
  "startsWith s p = (take (length p) s = p)"

fun str_includes :: "string \<Rightarrow> string \<Rightarrow> bool" where
  "str_includes [] p = (p = [])"
| "str_includes (c # cs) p = (startsWith (c # cs) p \<or> str_includes cs p)"

definition lowerChar :: "char \<Rightarrow> char" where
  "lowerChar c =
     (case map_of (zip ''ABCDEFGHIJKLMNOPQRSTUVWXYZ'' ''abcdefghijklmnopqrstuvwxyz'') c of
        Some l \<Rightarrow> l
      | None \<Rightarrow> c)"

definition upperChar :: "char \<Rightarrow> char" where
  "upperChar c =
     (case map_of (zip ''abcdefghijklmnopqrstuvwxyz'' ''ABCDEFGHIJKLMNOPQRSTUVWXYZ'') c of
        Some u \<Rightarrow> u
      | None \<Rightarrow> c)"

definition toLowerCase :: "string \<Rightarrow> string" where
  "toLowerCase s = map lowerChar s"

definition toUpperCase :: "string \<Rightarrow> string" where
  "toUpperCase s = map upperChar s"

text \<open>White space of \<^verbatim>\<open>trim()\<close> and of \<^verbatim>\<open>\s\<close>: tab, line feed, vertical tab, form feed,
  carriage return, space.\<close>

definition isSpace :: "char \<Rightarrow> bool" where
  "isSpace c = (c \<in> set [CHR 0x09, CHR 0x0A, CHR 0x0B, CHR 0x0C, CHR 0x0D, CHR '' ''])"

definition trim :: "string \<Rightarrow> string" where
  "trim s = rev (dropWhile isSpace (rev (dropWhile isSpace s)))"

section \<open>Timestamp\<close>

text \<open>\<^verbatim>\<open>new Date(value)\<close> followed by the \<^verbatim>\<open>isNaN(date.getTime())\<close> test: the time value in
  milliseconds, \<open>None\<close> for an invalid date. A string is parsed by the host, a number or
  boolean is the time value itself when it is within the range of time values, an array
  or object is converted to a string first.\<close>

definition timeClip :: "int \<Rightarrow> int option" where
  "timeClip n = (if \<bar>n\<bar> \<le> 8640000000000000 then Some n else None)"

fun newDate :: "host_env \<Rightarrow> json \<Rightarrow> error + int option" where
  "newDate env JUndefined = Inr None"
| "newDate env JNull = Inr (Some 0)"
| "newDate env (JBool b) = Inr (Some (if b then 1 else 0))"
| "newDate env (JNum n) = Inr (timeClip n)"
| "newDate env (JStr s) = Inr (Date_parse env s)"
| "newDate env v = (case ToString v of Inl e \<Rightarrow> Inl e | Inr s \<Rightarrow> Inr (Date_parse env s))"

definition parseTimestamp :: "host_env \<Rightarrow> json \<Rightarrow> error + int option" where
  "parseTimestamp env event =
     (let tsValue = getFirstValue event
            [''@timestamp'', ''event.created'', ''event.ingested'', ''event.start'', ''event.end'']
            JNull
      in if truthy tsValue then newDate env tsValue else Inr None)"

section \<open>Host identity, category, connection, summary\<close>

record host_identity =
  hostname :: json
  ip :: json
  displayName :: json

definition extractHostIdentifier :: "json \<Rightarrow> host_identity" where
  "extractHostIdentifier event =
     (let hostname = getFirstString event
            [''host.hostname'', ''host.name'', ''agent.name'', ''observer.hostname'',
             ''observer.name''] JNull;
          ip = getFirstString event [''host.ip'', ''observer.ip''] JNull
      in if truthy hostname \<or> truthy ip then
           \<lparr>hostname = js_or hostname (js_or ip (JStr ''Unknown'')),
            ip = js_or ip JNull,
            displayName = js_or hostname (js_or ip (JStr ''Unknown''))\<rparr>
         else
           (let sourceIp = getNestedString event ''source.ip'' JNull
            in if truthy sourceIp then
                 \<lparr>hostname = sourceIp, ip = sourceIp, displayName = sourceIp\<rparr>
               else
                 (let destIp = getNestedString event ''destination.ip'' JNull
                  in if truthy destIp then
                       \<lparr>hostname = destIp, ip = destIp, displayName = destIp\<rparr>
                     else
                       \<lparr>hostname = JStr ''Unknown'', ip = JNull,
                        displayName = JStr ''Unknown''\<rparr>)))"

text \<open>The lookup table of \<^verbatim>\<open>extractCategory\<close> is an object literal, so
  \<^verbatim>\<open>categoryMap[categoryValue]\<close> converts the value to a property key and finds an own
  property of the literal or, failing that, a member inherited from \<^verbatim>\<open>Object.prototype\<close>:
  a built-in function (or, for \<^verbatim>\<open>__proto__\<close>, the prototype object), all of them truthy.\<close>

definition categoryMap :: "(string \<times> string) list" where
  "categoryMap =
     [(''network'', ''network''), (''file'', ''file''), (''process'', ''process''),
      (''authentication'', ''authentication''), (''session'', ''authentication''),
      (''registry'', ''registry''), (''iam'', ''authentication''),
      (''intrusion_detection'', ''network''), (''malware'', ''process''),
      (''package'', ''file''), (''web'', ''network''), (''database'', ''network'')]"

definition objectPrototypeMembers :: "string list" where
  "objectPrototypeMembers =
     [''constructor'', ''hasOwnProperty'', ''isPrototypeOf'', ''propertyIsEnumerable'',
      ''toLocaleString'', ''toString'', ''valueOf'', ''__proto__'', ''__defineGetter__'',
      ''__defineSetter__'', ''__lookupGetter__'', ''__lookupSetter__'']"

datatype category =
    Category string
  | PrototypeMember string

text \<open>\<^verbatim>\<open>category[0]\<close> of an array: \<^verbatim>\<open>undefined\<close> when it is empty.\<close>

fun firstElement :: "json \<Rightarrow> json" where
  "firstElement (JArr []) = JUndefined"
| "firstElement (JArr (v # vs)) = v"
| "firstElement v = v"

definition extractCategory :: "json \<Rightarrow> error + category" where
  "extractCategory event =
     (let category = getFirstValue event [''event.category'', ''event.type''] JNull;
          categoryValue = firstElement category
      in case ToString categoryValue of
           Inl e \<Rightarrow> Inl e
         | Inr key \<Rightarrow>
             (case map_of categoryMap key of
                Some c \<Rightarrow> Inr (Category c)
              | None \<Rightarrow>
                  if key \<in> set objectPrototypeMembers then Inr (PrototypeMember key)
                  else Inr (Category ''other'')))"

text \<open>Exceptions propagate: the rest of a computation runs on a returned value only.\<close>

definition bindE :: "error + 'a \<Rightarrow> ('a \<Rightarrow> error + 'b) \<Rightarrow> error + 'b" where
  "bindE m f = (case m of Inl e \<Rightarrow> Inl e | Inr x \<Rightarrow> f x)"

text \<open>\<^verbatim>\<open>a === b\<close> for two values read from different fields of a decoded record: primitives
  compare by value, arrays and objects by reference, and two fields never hold the same
  reference.\<close>

fun strictEq :: "json \<Rightarrow> json \<Rightarrow> bool" where
  "strictEq (JArr xs) v = False"
| "strictEq (JObj kvs) v = False"
| "strictEq u v = (u = v)"

text \<open>A ConnectionInfo. Both addresses are strings: \<^verbatim>\<open>extractConnectionInfo\<close> calls
  \<^verbatim>\<open>startsWith\<close> on each of them before it builds the object.\<close>

record connection_info =
  sourceIp :: string
  sourcePort :: json
  sourceHostname :: json
  sourceBytes :: json
  sourcePackets :: json
  destIp :: string
  destPort :: json
  destHostname :: json
  destBytes :: json
  destPackets :: json
  protocol :: json
  direction :: json
  communityId :: json
  networkType :: json
  networkBytes :: json

definition extractConnectionInfo :: "json \<Rightarrow> error + connection_info option" where
  "extractConnectionInfo event =
     (let srcIp = getNestedString event ''source.ip'' JNull;
          dstIp = getNestedString event ''destination.ip'' JNull
      in if \<not> truthy srcIp \<or> \<not> truthy dstIp then Inr None
         else if strictEq srcIp dstIp \<or> srcIp = JStr ''127.0.0.1'' \<or> dstIp = JStr ''127.0.0.1''
         then Inr None
         else
           (case srcIp of
              JStr s \<Rightarrow>
                if startsWith s ''::1'' then Inr None
                else
                  (case dstIp of
                     JStr d \<Rightarrow>
                       if startsWith d ''::1'' then Inr None
                       else Inr (Some
                         \<lparr>sourceIp = s,
                          sourcePort = getNestedString event ''source.port'' JNull,
                          sourceHostname = getNestedString event ''source.domain'' JNull,
                          sourceBytes = getNestedValue event ''source.bytes'' JNull,
                          sourcePackets = getNestedValue event ''source.packets'' JNull,
                          destIp = d,
                          destPort = getNestedString event ''destination.port'' JNull,
                          destHostname = getNestedString event ''destination.domain'' JNull,
                          destBytes = getNestedValue event ''destination.bytes'' JNull,
                          destPackets = getNestedValue event ''destination.packets'' JNull,
                          protocol = getFirstValue event
                            [''network.transport'', ''network.protocol''] JNull,
                          direction = getNestedValue event ''network.direction'' JNull,
                          communityId = getNestedValue event ''network.community_id'' JNull,
                          networkType = getNestedValue event ''network.type'' JNull,
                          networkBytes = getNestedValue event ''network.bytes'' JNull\<rparr>)
                   | _ \<Rightarrow> Inl TypeError)
            | _ \<Rightarrow> Inl TypeError))"

text \<open>A template literal, or a chain of \<^verbatim>\<open>+\<close> that contains a string: every part is
  converted to a string.\<close>

fun concatParts :: "json list \<Rightarrow> error + string" where
  "concatParts [] = Inr []"
| "concatParts (v # vs) =
     (case ToString v of
        Inl e \<Rightarrow> Inl e
      | Inr s \<Rightarrow> (case concatParts vs of Inl e \<Rightarrow> Inl e | Inr t \<Rightarrow> Inr (s @ t)))"

text \<open>\<^verbatim>\<open>if (cond) summary += `...`\<close>, the template given by its parts.\<close>

definition plusAssign :: "bool \<Rightarrow> json list \<Rightarrow> json \<Rightarrow> error + json" where
  "plusAssign cond parts summary =
     (if cond then
        (case concatParts (summary # parts) of Inl e \<Rightarrow> Inl e | Inr s \<Rightarrow> Inr (JStr s))
      else Inr summary)"

text \<open>\<^verbatim>\<open>userName && !userName.toUpperCase().includes('SYSTEM')\<close>\<close>

fun userShown :: "json \<Rightarrow> error + bool" where
  "userShown (JStr s) = Inr (s \<noteq> [] \<and> \<not> str_includes (toUpperCase s) ''SYSTEM'')"
| "userShown v = (if truthy v then Inl TypeError else Inr False)"

definition extractSummary :: "json \<Rightarrow> error + json" where
  "extractSummary event =
     (let action = getFirstValue event [''event.action'', ''event.type''] JNull;
          actionStr = firstElement action;
          processName = getNestedString event ''process.name'' JNull;
          fileName = getNestedString event ''file.name'' JNull;
          userName = getNestedString event ''user.name'' JNull;
          dstIp = getNestedString event ''destination.ip'' JNull;
          dstPort = getNestedString event ''destination.port'' JNull;
          dnsQuery = getNestedString event ''dns.question.name'' JNull;
          urlDomain = getNestedString event ''url.domain'' JNull
      in
        bindE (plusAssign (truthy processName) [JStr '' ['', processName, JStr '']'']
                 (js_or actionStr (JStr ''Event''))) (\<lambda>s1.
        bindE (plusAssign (truthy fileName) [JStr '' '', fileName] s1) (\<lambda>s2.
        bindE (if truthy dstIp \<and> truthy dstPort
               then plusAssign True [JStr '' -> '', dstIp, JStr '':'', dstPort] s2
               else plusAssign (truthy dstIp) [JStr '' -> '', dstIp] s2) (\<lambda>s3.
        bindE (plusAssign (truthy dnsQuery) [JStr '' ('', dnsQuery, JStr '')''] s3) (\<lambda>s4.
        bindE (plusAssign (truthy urlDomain \<and> \<not> truthy dnsQuery)
                 [JStr '' ('', urlDomain, JStr '')''] s4) (\<lambda>s5.
        bindE (userShown userName) (\<lambda>shown.
        plusAssign shown [JStr '' by '', userName] s5)))))))"

section \<open>Ingestion\<close>

definition generateEventId :: "host_env \<Rightarrow> json \<Rightarrow> int option \<Rightarrow> nat \<Rightarrow> error + json" where
  "generateEventId env event timestamp index =
     (let eventId = getNestedValue event ''event.id'' JNull
      in if truthy eventId then Inr eventId
         else
           (let hostV = js_or (getFirstString event [''host.hostname'', ''host.name'', ''host.ip'']
                                JNull) (JStr ''unknown'');
                ts = (case timestamp of Some t \<Rightarrow> t | None \<Rightarrow> Date_now env)
            in case concatParts [JNum ts, JStr ''-'', hostV, JStr ''-'', JNum (int index)] of
                 Inl e \<Rightarrow> Inl e
               | Inr s \<Rightarrow> Inr (JStr s)))"

text \<open>A CanonicalEvent. The \<^verbatim>\<open>details\<close> record is left out: \<^verbatim>\<open>extractDetails\<close> only copies
  fields with \<^verbatim>\<open>getNestedValue\<close> and cannot raise, and neither the registry nor the
  connection identification reads it. The timestamp is the time value of a valid \<^verbatim>\<open>Date\<close>
  (\<^verbatim>\<open>parseEvent\<close> returns \<^verbatim>\<open>null\<close> without one).\<close>

record event =
  event_id :: json
  timestamp :: int
  host :: host_identity
  category :: category
  connection :: "connection_info option"
  summary :: json
  raw :: json

text \<open>\<^verbatim>\<open>rawEvent._source || rawEvent\<close>: the payload of a record, unwrapped from its envelope.\<close>

definition payloadOf :: "json \<Rightarrow> json" where
  "payloadOf rawEvent = js_or (getProp rawEvent ''_source'') rawEvent"

definition parseEvent :: "host_env \<Rightarrow> json \<Rightarrow> nat \<Rightarrow> error + event option" where
  "parseEvent env rawEvent index =
     (if rawEvent = JNull \<or> rawEvent = JUndefined then Inl TypeError
      else
        (let esId = js_or (getProp rawEvent ''_id'') JNull;
             ev = payloadOf rawEvent
         in bindE (parseTimestamp env ev) (\<lambda>parsed.
              case parsed of
                None \<Rightarrow> Inr None
              | Some ts \<Rightarrow>
                  bindE (extractCategory ev) (\<lambda>cat.
                  bindE (extractConnectionInfo ev) (\<lambda>conn.
                  bindE (extractSummary ev) (\<lambda>summ.
                  bindE (if truthy esId then Inr esId
                         else generateEventId env ev (Some ts) index) (\<lambda>eventId.
                  Inr (Some
                    \<lparr>event_id = eventId,
                     timestamp = ts,
                     host = extractHostIdentifier ev,
                     category = cat,
                     connection = conn,
                     summary = summ,
                     raw = ev\<rparr>))))))))"

text \<open>\<^verbatim>\<open>rawEvents.map((event, index) => parseEvent(event, index)).filter(Boolean)\<close>, from
  the ordinal position \<open>index\<close> on.\<close>

fun parseEach :: "host_env \<Rightarrow> nat \<Rightarrow> json list \<Rightarrow> error + event list" where
  "parseEach env index [] = Inr []"
| "parseEach env index (rawEvent # rest) =
     (case parseEvent env rawEvent index of
        Inl e \<Rightarrow> Inl e
      | Inr parsed \<Rightarrow>
          (case parseEach env (Suc index) rest of
             Inl e \<Rightarrow> Inl e
           | Inr evs \<Rightarrow> Inr (case parsed of None \<Rightarrow> evs | Some ev \<Rightarrow> ev # evs)))"

text \<open>The two tests for back-to-back objects: a closing brace, white space (with a line
  feed in it when \<open>nl\<close>), an opening brace.\<close>

fun bracePair :: "bool \<Rightarrow> string \<Rightarrow> bool" where
  "bracePair nl [] = False"
| "bracePair nl (c # cs) =
     ((c = CHR ''}'' \<and> (if nl then CHR 0x0A \<in> set (takeWhile isSpace cs) else True) \<and>
       (case dropWhile isSpace cs of d # ds \<Rightarrow> d = CHR ''{'' | [] \<Rightarrow> False))
      \<or> bracePair nl cs)"

text \<open>The line-delimited fallback: the non-blank lines that parse to a truthy value.\<close>

definition parseLines :: "host_env \<Rightarrow> string \<Rightarrow> json list" where
  "parseLines env trimmed =
     List.map_filter
       (\<lambda>line. case JSON_parse env line of
                 Some v \<Rightarrow> if truthy v then Some v else None
               | None \<Rightarrow> None)
       (filter (\<lambda>line. trim line \<noteq> []) (split_on CHR 0x0A trimmed))"

definition rawEventsOf :: "host_env \<Rightarrow> json \<Rightarrow> error + json" where
  "rawEventsOf env input =
     (case input of
        JStr text \<Rightarrow>
          (let trimmed = trim text
           in if startsWith trimmed ''['' then
                (case JSON_parse env trimmed of
                   Some v \<Rightarrow> Inr v
                 | None \<Rightarrow> Inl FailedToParseJsonArray)
              else if startsWith trimmed ''{'' then
                (case JSON_parse env trimmed of
                   Some v \<Rightarrow> Inr (JArr [v])
                 | None \<Rightarrow>
                     (let rawEvents = parseLines env trimmed
                      in if rawEvents = [] then
                           (if bracePair True trimmed \<or> bracePair False trimmed
                            then Inl MultipleJsonObjects
                            else Inl FailedToParseJson)
                         else Inr (JArr rawEvents)))
              else Inl NotValidJson)
      | JArr xs \<Rightarrow> Inr (JArr xs)
      | JObj kvs \<Rightarrow> Inr (JArr [JObj kvs])
      | JNull \<Rightarrow> Inr (JArr [JNull])
      | _ \<Rightarrow> Inl InvalidInputType)"

text \<open>\<^verbatim>\<open>parseEvents\<close>: the raw events of the input, then every one parsed. A text that
  starts with a bracket decodes to an array; on any other value \<^verbatim>\<open>rawEvents.map\<close> is not a
  function.\<close>

definition parseEvents :: "host_env \<Rightarrow> json \<Rightarrow> error + event list" where
  "parseEvents env input =
     bindE (rawEventsOf env input) (\<lambda>rawEvents.
       case rawEvents of
         JArr xs \<Rightarrow> parseEach env 0 xs
       | _ \<Rightarrow> Inl TypeError)"

section \<open>Host registry\<close>

text \<open>The registry is a \<^verbatim>\<open>Map\<close> from the lower-cased hostname to an entry, in insertion
  order; an entry's addresses are a \<^verbatim>\<open>Set\<close>, in insertion order. An entry's hostname is a
  string: its key was computed from it with \<^verbatim>\<open>toLowerCase\<close>. (Sets and maps compare arrays
  and objects by reference, the model by structure; the parser only looks strings up.)\<close>

record host_entry =
  entry_hostname :: string
  entry_ips :: "json list"
  entry_displayName :: json

record host_registry =
  hosts :: "(string \<times> host_entry) list"
  ipToHost :: "(json \<times> string) list"

text \<open>\<^verbatim>\<open>if (!registry.has(key)) registry.set(key, entry)\<close>\<close>

definition registryAdd ::
  "string \<Rightarrow> host_entry \<Rightarrow> (string \<times> host_entry) list \<Rightarrow> (string \<times> host_entry) list" where
  "registryAdd key entry registry =
     (if map_of registry key = None then registry @ [(key, entry)] else registry)"

text \<open>\<^verbatim>\<open>registry.get(key).ips.add(addr)\<close>\<close>

definition ipsAdd ::
  "string \<Rightarrow> json \<Rightarrow> (string \<times> host_entry) list \<Rightarrow> (string \<times> host_entry) list" where
  "ipsAdd key addr registry =
     map (\<lambda>(k, e). if k = key
                    then (k, e\<lparr>entry_ips :=
                                 (if addr \<in> set (entry_ips e) then entry_ips e
                                  else entry_ips e @ [addr])\<rparr>)
                    else (k, e)) registry"

text \<open>The host of an event (every CanonicalEvent has one): skipped for the Unknown
  sentinel; \<^verbatim>\<open>toLowerCase\<close> is not a function on anything but a string.\<close>

definition collectHost ::
  "event \<Rightarrow> (string \<times> host_entry) list \<Rightarrow> error + (string \<times> host_entry) list" where
  "collectHost e registry =
     (if hostname (host e) \<noteq> JStr ''Unknown'' then
        (case hostname (host e) of
           JStr h \<Rightarrow>
             (let key = toLowerCase h;
                  registry1 = registryAdd key
                    \<lparr>entry_hostname = h, entry_ips = [],
                     entry_displayName = displayName (host e)\<rparr> registry
              in Inr (if truthy (ip (host e)) then ipsAdd key (ip (host e)) registry1
                      else registry1))
         | _ \<Rightarrow> Inl TypeError)
      else Inr registry)"

text \<open>A named endpoint of a connection, with its address.\<close>

definition collectEndpoint ::
  "json \<Rightarrow> string \<Rightarrow> (string \<times> host_entry) list \<Rightarrow> error + (string \<times> host_entry) list" where
  "collectEndpoint name addr registry =
     (if truthy name then
        (case name of
           JStr h \<Rightarrow>
             (let key = toLowerCase h
              in Inr (ipsAdd key (JStr addr)
                        (registryAdd key
                           \<lparr>entry_hostname = h, entry_ips = [], entry_displayName = JStr h\<rparr>
                           registry)))
         | _ \<Rightarrow> Inl TypeError)
      else Inr registry)"

definition collectEvent ::
  "event \<Rightarrow> (string \<times> host_entry) list \<Rightarrow> error + (string \<times> host_entry) list" where
  "collectEvent e registry =
     bindE (collectHost e registry) (\<lambda>registry1.
       case connection e of
         None \<Rightarrow> Inr registry1
       | Some conn \<Rightarrow>
           bindE (collectEndpoint (sourceHostname conn) (sourceIp conn) registry1) (\<lambda>registry2.
             collectEndpoint (destHostname conn) (destIp conn) registry2))"

text \<open>The first pass, \<^verbatim>\<open>events.forEach\<close>.\<close>

fun collectAll ::
  "event list \<Rightarrow> (string \<times> host_entry) list \<Rightarrow> error + (string \<times> host_entry) list" where
  "collectAll [] registry = Inr registry"
| "collectAll (e # es) registry =
     (case collectEvent e registry of
        Inl err \<Rightarrow> Inl err
      | Inr registry1 \<Rightarrow> collectAll es registry1)"

text \<open>\<^verbatim>\<open>ipToHost.set(addr, key)\<close>: an address already present keeps its place and takes the
  new key.\<close>

fun mapSet :: "'k \<Rightarrow> 'v \<Rightarrow> ('k \<times> 'v) list \<Rightarrow> ('k \<times> 'v) list" where
  "mapSet k v [] = [(k, v)]"
| "mapSet k v ((k', v') # m) = (if k' = k then (k, v) # m else (k', v') # mapSet k v m)"

text \<open>The second pass, over the entries and their addresses in insertion order.\<close>

definition buildIpToHost :: "(string \<times> host_entry) list \<Rightarrow> (json \<times> string) list" where
  "buildIpToHost registry =
     fold (\<lambda>(key, h) m. fold (\<lambda>addr m'. mapSet addr key m') (entry_ips h) m) registry []"

definition buildHostRegistry :: "event list \<Rightarrow> error + host_registry" where
  "buildHostRegistry events =
     (case collectAll events [] of
        Inl err \<Rightarrow> Inl err
      | Inr registry \<Rightarrow> Inr \<lparr>hosts = registry, ipToHost = buildIpToHost registry\<rparr>)"

definition resolveIp :: "host_registry \<Rightarrow> string \<Rightarrow> string" where
  "resolveIp reg addr =
     (case map_of (ipToHost reg) (JStr addr) of
        Some hostKey \<Rightarrow>
          (if hostKey \<noteq> [] then
             (case map_of (hosts reg) hostKey of
                Some h \<Rightarrow> entry_hostname h
              | None \<Rightarrow> addr)
           else addr)
      | None \<Rightarrow> addr)"

definition getHostList :: "host_registry \<Rightarrow> host_entry list" where
  "getHostList reg = map snd (hosts reg)"

section \<open>Connection identification\<close>

record connection_edge =
  edge_eventId :: json
  edge_timestamp :: int
  edge_sourceHost :: string
  edge_sourceIp :: string
  edge_sourcePort :: json
  edge_destHost :: string
  edge_destIp :: string
  edge_destPort :: json
  edge_protocol :: json
  edge_direction :: json
  edge_communityId :: json

text \<open>The body of the \<^verbatim>\<open>forEach\<close> of \<^verbatim>\<open>identifyConnections\<close>: returns early or pushes one
  edge.\<close>

definition pushConnection ::
  "host_registry \<Rightarrow> event \<Rightarrow> connection_edge list \<Rightarrow> connection_edge list" where
  "pushConnection reg e connections =
     (case connection e of
        None \<Rightarrow> connections
      | Some conn \<Rightarrow>
          (let srcHost = resolveIp reg (sourceIp conn);
               dstHost = resolveIp reg (destIp conn)
           in if toLowerCase srcHost = toLowerCase dstHost then connections
              else connections @
                [\<lparr>edge_eventId = event_id e,
                  edge_timestamp = timestamp e,
                  edge_sourceHost = srcHost,
                  edge_sourceIp = sourceIp conn,
                  edge_sourcePort = sourcePort conn,
                  edge_destHost = dstHost,
                  edge_destIp = destIp conn,
                  edge_destPort = destPort conn,
                  edge_protocol = protocol conn,
                  edge_direction = direction conn,
                  edge_communityId = communityId conn\<rparr>]))"

definition identifyConnections :: "event list \<Rightarrow> host_registry \<Rightarrow> connection_edge list" where
  "identifyConnections events reg = fold (pushConnection reg) events []"


section \<open>The specification's words\<close>

text \<open>A field is populated when it is neither absent, \<^verbatim>\<open>null\<close> nor the empty string.\<close>

definition populated :: "json \<Rightarrow> bool" where
  "populated v = (v \<noteq> JNull \<and> v \<noteq> JUndefined \<and> v \<noteq> JStr [])"




text \<open>\<^verbatim>\<open>typeof v === 'string'\<close>\<close>

fun isString :: "json \<Rightarrow> bool" where
  "isString (JStr s) = True"
| "isString v = False"

text \<open>A loopback address: the IPv4 loopback address, or a string that begins with the
  IPv6 loopback prefix.\<close>

definition isLoopback :: "json \<Rightarrow> bool" where
  "isLoopback a =
     (a = JStr ''127.0.0.1'' \<or> (case a of JStr s \<Rightarrow> startsWith s ''::1'' | _ \<Rightarrow> False))"

text \<open>An event is a cross-host flow when it carries a ConnectionInfo whose two addresses
  resolve, through the registry, to hostnames that differ case-insensitively.\<close>

definition crossHost :: "host_registry \<Rightarrow> event \<Rightarrow> bool" where
  "crossHost reg e =
     (case connection e of
        None \<Rightarrow> False
      | Some conn \<Rightarrow>
          toLowerCase (resolveIp reg (sourceIp conn)) \<noteq> toLowerCase (resolveIp reg (destIp conn)))"




section \<open>Sample inputs\<close>

text \<open>A host for the concrete runs below: its \<^verbatim>\<open>Date.parse\<close> knows the two ISO timestamps
  of the repository's tests (every conforming implementation parses them to these time
  values); the runs pass decoded records, so its \<^verbatim>\<open>JSON.parse\<close> is never consulted.\<close>

definition testDateParse :: "string \<Rightarrow> int option" where
  "testDateParse s =
     (if s = ''2024-01-15T10:30:00.000Z'' then Some 1705314600000
      else if s = ''2024-01-15T10:31:00.000Z'' then Some 1705314660000
      else None)"

definition testJsonParse :: "string \<Rightarrow> json option" where
  "testJsonParse s = None"

definition testEnv :: host_env where
  "testEnv = \<lparr>JSON_parse = testJsonParse, Date_parse = testDateParse, Date_now = 0\<rparr>"

text \<open>Records of the repository's tests and variations of them.\<close>

definition emptyHostIpRecord :: json where
  "emptyHostIpRecord =
     JObj [(''host'', JObj [(''name'', JArr []), (''ip'', JArr [])]),
           (''agent'', JObj [(''name'', JStr ''beat-01'')]),
           (''observer'', JObj [(''ip'', JStr ''10.0.0.9'')])]"

definition epochRecord :: json where
  "epochRecord =
     JObj [(''@timestamp'', JNum 0),
           (''event'', JObj [(''created'', JStr ''2024-01-15T10:30:00.000Z'')]),
           (''host'', JObj [(''hostname'', JStr ''server1'')])]"

definition plainRecord :: json where
  "plainRecord =
     JObj [(''@timestamp'', JStr ''2024-01-15T10:31:00.000Z''),
           (''host'', JObj [(''hostname'', JStr ''server2'')])]"




definition envelopedRecord :: json where
  "envelopedRecord =
     JObj [(''_id'', JStr ''abc123''),
           (''_source'',
            JObj [(''@timestamp'', JStr ''2024-01-15T10:30:00.000Z''),
                  (''event'', JObj [(''id'', JStr ''evt-7'')]),
                  (''host'', JObj [(''hostname'', JStr ''es-host'')])])]"

definition eventIdRecord :: json where
  "eventIdRecord =
     JObj [(''@timestamp'', JStr ''2024-01-15T10:30:00.000Z''),
           (''event'', JObj [(''id'', JStr ''evt-7'')]),
           (''host'', JObj [(''hostname'', JStr ''es-host'')])]"

definition constructorRecord :: json where
  "constructorRecord =
     JObj [(''@timestamp'', JStr ''2024-01-15T10:30:00.000Z''),
           (''host'', JObj [(''hostname'', JStr ''server'')]),
           (''event'', JObj [(''category'', JArr [JStr ''constructor''])])]"

definition tcpFlowRecord :: json where
  "tcpFlowRecord =
     JObj [(''@timestamp'', JStr ''2024-01-15T10:30:00.000Z''),
           (''host'', JObj [(''hostname'', JStr ''firewall'')]),
           (''source'', JObj [(''ip'', JStr ''192.168.1.100''), (''port'', JNum 54321)]),
           (''destination'', JObj [(''ip'', JStr ''10.0.0.50''), (''port'', JNum 443)]),
           (''network'', JObj [(''transport'', JStr ''tcp''), (''direction'', JStr ''outbound'')])]"

definition loopbackRecord :: json where
  "loopbackRecord =
     JObj [(''@timestamp'', JStr ''2024-01-15T10:30:00.000Z''),
           (''host'', JObj [(''hostname'', JStr ''server'')]),
           (''source'', JObj [(''ip'', JStr ''10.0.0.7''), (''port'', JNum 54321)]),
           (''destination'', JObj [(''ip'', JStr ''::1''), (''port'', JNum 8080)])]"

definition sameIpRecord :: json where
  "sameIpRecord =
     JObj [(''@timestamp'', JStr ''2024-01-15T10:30:00.000Z''),
           (''host'', JObj [(''hostname'', JStr ''server'')]),
           (''source'', JObj [(''ip'', JStr ''192.168.1.100''), (''port'', JNum 54321)]),
           (''destination'', JObj [(''ip'', JStr ''192.168.1.100''), (''port'', JNum 8080)])]"

definition numericIpRecord :: json where
  "numericIpRecord =
     JObj [(''@timestamp'', JStr ''2024-01-15T10:30:00.000Z''),
           (''host'', JObj [(''hostname'', JStr ''firewall'')]),
           (''source'', JObj [(''ip'', JNum 3232235876), (''port'', JNum 54321)]),
           (''destination'', JObj [(''ip'', JNum 167772210), (''port'', JNum 443)])]"

definition clientRecord :: json where
  "clientRecord =
     JObj [(''@timestamp'', JStr ''2024-01-15T10:30:00.000Z''),
           (''host'', JObj [(''hostname'', JStr ''client''), (''ip'', JStr ''192.168.1.100'')]),
           (''source'', JObj [(''ip'', JStr ''192.168.1.100''), (''port'', JNum 54321)]),
           (''destination'', JObj [(''ip'', JStr ''192.168.1.200''), (''port'', JNum 443)])]"

definition serverRecord :: json where
  "serverRecord =
     JObj [(''@timestamp'', JStr ''2024-01-15T10:31:00.000Z''),
           (''host'', JObj [(''hostname'', JStr ''server''), (''ip'', JStr ''192.168.1.200'')])]"

definition aliasRecord :: json where
  "aliasRecord =
     JObj [(''@timestamp'', JStr ''2024-01-15T10:31:00.000Z''),
           (''host'', JObj [(''hostname'', JStr ''CLIENT''), (''ip'', JStr ''192.168.1.101'')]),
           (''source'', JObj [(''ip'', JStr ''192.168.1.101''), (''port'', JNum 40000)]),
           (''destination'', JObj [(''ip'', JStr ''192.168.1.100''), (''port'', JNum 22)])]"

section \<open>Properties\<close>

subsection \<open>The fallback combinator\<close>

lemma getFirstValue_skips_absent:
  assumes "list_all (\<lambda>q. \<not> populated (getNestedValue obj q JNull)) pre"
  shows "getFirstValue obj (pre @ paths) d = getFirstValue obj paths d"
  using assms by (induction pre) (auto simp: Let_def populated_def)

text \<open>
  C9. A present empty sequence is not skipped by the fallback combinator. When a path of
  the list resolves to the empty array and no path before it is populated (each is absent,
  \<^verbatim>\<open>null\<close> or the empty string), \<^verbatim>\<open>getFirstValue\<close> returns the empty array, whatever the
  later paths \<open>post\<close> hold, and \<^verbatim>\<open>getFirstString\<close> returns \<^verbatim>\<open>null\<close>: the populated
  lower-priority path is shadowed.
\<close>

theorem getFirstValue_empty_array_shadows:
  assumes "list_all (\<lambda>q. \<not> populated (getNestedValue obj q JNull)) pre"
    and "getNestedValue obj p JNull = JArr []"
  shows "getFirstValue obj (pre @ p # post) d = JArr [] \<and>
         getFirstString obj (pre @ p # post) d = JNull"
proof -
  have "getFirstValue obj (pre @ p # post) d = getFirstValue obj (p # post) d"
    using assms(1) by (rule getFirstValue_skips_absent)
  also have "\<dots> = JArr []"
    using assms(2) by simp
  finally show ?thesis
    by (simp add: getFirstString_def)
qed

text \<open>
  The example of C9: \<^verbatim>\<open>host.ip: []\<close> with \<^verbatim>\<open>observer.ip\<close> populated yields a null
  identity address; likewise an empty \<^verbatim>\<open>host.name\<close> after an absent \<^verbatim>\<open>host.hostname\<close>
  shadows \<^verbatim>\<open>agent.name\<close>.
\<close>

theorem getFirstValue_empty_array_shadows_witness:
  "getNestedValue emptyHostIpRecord ''observer.ip'' JNull = JStr ''10.0.0.9'' \<and>
   getFirstValue emptyHostIpRecord [''host.ip'', ''observer.ip''] JNull = JArr [] \<and>
   getFirstString emptyHostIpRecord [''host.ip'', ''observer.ip''] JNull = JNull \<and>
   getNestedValue emptyHostIpRecord ''agent.name'' JNull = JStr ''beat-01'' \<and>
   getFirstString emptyHostIpRecord
     [''host.hostname'', ''host.name'', ''agent.name'', ''observer.hostname'', ''observer.name'']
     JNull = JNull \<and>
   ip (extractHostIdentifier emptyHostIpRecord) = JNull"
proof -
  have a: "list_all (\<lambda>q. \<not> populated (getNestedValue emptyHostIpRecord q JNull)) []"
    by simp
  have b: "getNestedValue emptyHostIpRecord ''host.ip'' JNull = JArr []"
    by (simp add: emptyHostIpRecord_def getNestedValue_def)
  have c: "list_all (\<lambda>q. \<not> populated (getNestedValue emptyHostIpRecord q JNull))
             [''host.hostname'']"
    by (simp add: emptyHostIpRecord_def getNestedValue_def populated_def)
  have d: "getNestedValue emptyHostIpRecord ''host.name'' JNull = JArr []"
    by (simp add: emptyHostIpRecord_def getNestedValue_def)
  from getFirstValue_empty_array_shadows [OF a b, of "[''observer.ip'']" JNull]
  have e: "getFirstValue emptyHostIpRecord [''host.ip'', ''observer.ip''] JNull = JArr []"
    and f: "getFirstString emptyHostIpRecord [''host.ip'', ''observer.ip''] JNull = JNull"
    by simp_all
  from getFirstValue_empty_array_shadows [OF c d,
      of "[''agent.name'', ''observer.hostname'', ''observer.name'']" JNull]
  have g: "getFirstString emptyHostIpRecord
     [''host.hostname'', ''host.name'', ''agent.name'', ''observer.hostname'', ''observer.name'']
     JNull = JNull"
    by simp
  have h: "getNestedValue emptyHostIpRecord ''observer.ip'' JNull = JStr ''10.0.0.9''"
    "getNestedValue emptyHostIpRecord ''agent.name'' JNull = JStr ''beat-01''"
    by (simp_all add: emptyHostIpRecord_def getNestedValue_def)
  have i: "ip (extractHostIdentifier emptyHostIpRecord) = JNull"
    by (simp add: extractHostIdentifier_def getFirstString_def getNestedString_def js_or_def
        emptyHostIpRecord_def getNestedValue_def Let_def)
  from e f g h i show ?thesis by simp
qed

subsection \<open>Evaluation and the error monad\<close>

lemma show_int_numeral:
  "show_int (numeral k) = show_nat (numeral k)"
  "show_int 0 = show_nat 0"
  "show_int 1 = show_nat 1"
  by (simp_all add: show_int_def)

lemmas show_nat_numeral =
  show_nat.simps [of "numeral k" for k] show_nat.simps [of 0] show_nat.simps [of 1]
  show_nat.simps [of "Suc n" for n]

lemmas run_defs =
  getNestedValue_def getNestedString_def getFirstString_def ToString_def categoryMap_def
  objectPrototypeMembers_def extractCategory_def extractConnectionInfo_def extractSummary_def
  extractHostIdentifier_def generateEventId_def parseEvent_def parseTimestamp_def
  payloadOf_def bindE_def plusAssign_def js_or_def startsWith_def timeClip_def Let_def
  show_int_numeral show_nat_numeral digit_def

lemmas test_defs = run_defs testEnv_def testDateParse_def

lemma bindE_Inr_iff: "bindE m f = Inr y \<longleftrightarrow> (\<exists>x. m = Inr x \<and> f x = Inr y)"
  by (cases m) (simp_all add: bindE_def)

lemma show_int_of_nat: "show_int (int n) = show_nat n"
  by (simp add: show_int_def)

lemma concatParts_id:
  "concatParts [JNum ts, JStr a, h, JStr b, JNum (int index)] =
     (if stringifiable h then Inr (show_int ts @ a @ toStr h @ b @ show_nat index)
      else Inl TypeError)"
  by (simp add: ToString_def show_int_of_nat)

subsection \<open>One record\<close>

lemma parseEvent_without_timestamp:
  assumes "rawEvent \<noteq> JNull" and "rawEvent \<noteq> JUndefined"
    and "parseTimestamp env (payloadOf rawEvent) = Inr None"
  shows "parseEvent env rawEvent index = Inr None"
  using assms by (simp add: parseEvent_def bindE_def)

lemma generateEventId_cases:
  assumes "generateEventId env ev (Some ts) index = Inr v"
  shows "v = (if truthy (getNestedValue ev ''event.id'' JNull)
              then getNestedValue ev ''event.id'' JNull
              else JStr (show_int ts @ ''-'' @
                     toStr (js_or (getFirstString ev [''host.hostname'', ''host.name'', ''host.ip'']
                                     JNull) (JStr ''unknown'')) @
                     ''-'' @ show_nat index))"
proof (cases "truthy (getNestedValue ev ''event.id'' JNull)")
  case True
  with assms show ?thesis by (simp add: generateEventId_def)
next
  case False
  with assms show ?thesis
    unfolding generateEventId_def Let_def concatParts_id
    by (simp split: if_splits)
qed

lemma parseEvent_Some:
  assumes "parseEvent env rawEvent index = Inr (Some e)"
  shows "rawEvent \<noteq> JNull \<and> rawEvent \<noteq> JUndefined \<and>
     parseTimestamp env (payloadOf rawEvent) = Inr (Some (timestamp e)) \<and>
     extractCategory (payloadOf rawEvent) = Inr (category e) \<and>
     extractConnectionInfo (payloadOf rawEvent) = Inr (connection e) \<and>
     host e = extractHostIdentifier (payloadOf rawEvent) \<and>
     raw e = payloadOf rawEvent \<and>
     (if truthy (getProp rawEvent ''_id'') then Inr (getProp rawEvent ''_id'')
      else generateEventId env (payloadOf rawEvent) (Some (timestamp e)) index)
       = Inr (event_id e)"
proof -
  from assms have r: "rawEvent \<noteq> JNull" "rawEvent \<noteq> JUndefined"
    by (auto simp: parseEvent_def split: if_splits)
  let ?ev = "payloadOf rawEvent"
  let ?esId = "js_or (getProp rawEvent ''_id'') JNull"
  from assms r obtain parsed where
    p: "parseTimestamp env ?ev = Inr parsed"
    and rest1: "(case parsed of None \<Rightarrow> Inr None
       | Some ts \<Rightarrow>
          bindE (extractCategory ?ev) (\<lambda>cat.
          bindE (extractConnectionInfo ?ev) (\<lambda>conn.
          bindE (extractSummary ?ev) (\<lambda>summ.
          bindE (if truthy ?esId then Inr ?esId
                 else generateEventId env ?ev (Some ts) index) (\<lambda>eventId.
          Inr (Some
            \<lparr>event_id = eventId, timestamp = ts, host = extractHostIdentifier ?ev,
             category = cat, connection = conn, summary = summ, raw = ?ev\<rparr>)))))) = Inr (Some e)"
    by (simp add: parseEvent_def Let_def bindE_Inr_iff) blast
  from rest1 obtain ts where ts: "parsed = Some ts"
    by (cases parsed) simp_all
  from rest1 [unfolded ts] obtain cat conn summ eventId where
    c: "extractCategory ?ev = Inr cat"
    and cn: "extractConnectionInfo ?ev = Inr conn"
    and i: "(if truthy ?esId then Inr ?esId
                 else generateEventId env ?ev (Some ts) index) = Inr eventId"
    and e: "e = \<lparr>event_id = eventId, timestamp = ts, host = extractHostIdentifier ?ev,
             category = cat, connection = conn, summary = summ, raw = ?ev\<rparr>"
    by (simp add: bindE_Inr_iff) blast
  have t: "truthy ?esId = truthy (getProp rawEvent ''_id'')"
    by (simp add: js_or_def)
  have j: "truthy (getProp rawEvent ''_id'') \<Longrightarrow> ?esId = getProp rawEvent ''_id''"
    by (simp add: js_or_def)
  from i t j have i': "(if truthy (getProp rawEvent ''_id'') then Inr (getProp rawEvent ''_id'')
      else generateEventId env ?ev (Some ts) index) = Inr eventId"
    by (simp split: if_splits)
  from r p ts c cn i' e show ?thesis by (simp split: if_splits)
qed

subsection \<open>A batch\<close>

lemma parseEvents_array: "parseEvents env (JArr xs) = parseEach env 0 xs"
  by (simp add: parseEvents_def rawEventsOf_def bindE_def)

lemma parseEach_drop:
  assumes "parseEvent env rawEvent index = Inr None"
  shows "parseEach env index (rawEvent # rest) = parseEach env (Suc index) rest"
  using assms by (simp split: sum.splits)

subsection \<open>Timestamps\<close>

text \<open>
  C10. A record whose first non-empty timestamp candidate is the number 0 is dropped:
  \<^verbatim>\<open>parseTimestamp\<close> tests the candidate for truthiness before parsing it, so it returns
  \<^verbatim>\<open>null\<close>, \<^verbatim>\<open>parseEvent\<close> returns \<^verbatim>\<open>null\<close> and the batch goes on without the record, although
  \<^verbatim>\<open>new Date(0)\<close> is a valid date (the epoch).
\<close>

theorem epoch_zero_timestamp_dropped:
  assumes "getFirstValue (payloadOf rawEvent)
           [''@timestamp'', ''event.created'', ''event.ingested'', ''event.start'', ''event.end'']
           JNull = JNum 0"
  shows "parseTimestamp env (payloadOf rawEvent) = Inr None \<and>
         parseEvent env rawEvent index = Inr None \<and>
         parseEach env index (rawEvent # rest) = parseEach env (Suc index) rest \<and>
         newDate env (JNum 0) = Inr (Some 0)"
proof -
  have "rawEvent \<noteq> JNull" and "rawEvent \<noteq> JUndefined"
    using assms by (auto simp: payloadOf_def js_or_def getNestedValue_def)
  moreover have ts: "parseTimestamp env (payloadOf rawEvent) = Inr None"
    using assms by (simp add: parseTimestamp_def)
  ultimately have ev: "parseEvent env rawEvent index = Inr None"
    by (rule parseEvent_without_timestamp)
  from ts ev parseEach_drop [OF ev] show ?thesis
    by (simp add: timeClip_def)
qed

text \<open>A record with \<^verbatim>\<open>@timestamp: 0\<close> and a parseable \<^verbatim>\<open>event.created\<close> is dropped; the
  record after it is kept, at ordinal position 1.\<close>

theorem epoch_zero_timestamp_dropped_witness:
  "getNestedValue epochRecord ''@timestamp'' JNull = JNum 0 \<and>
   parseTimestamp testEnv (payloadOf epochRecord) = Inr None \<and>
   parseEvent testEnv epochRecord 0 = Inr None \<and>
   map_sum id (map event_id) (parseEvents testEnv (JArr [epochRecord, plainRecord])) =
     Inr [JStr ''1705314660000-server2-1'']"
proof -
  have b: "getFirstValue (payloadOf epochRecord)
           [''@timestamp'', ''event.created'', ''event.ingested'', ''event.start'', ''event.end'']
           JNull = JNum 0"
    by (simp add: epochRecord_def payloadOf_def js_or_def getNestedValue_def)
  note w = epoch_zero_timestamp_dropped [OF b, of testEnv 0 "[plainRecord]"]
  have c: "map_sum id (map event_id) (parseEach testEnv (Suc 0) [plainRecord]) =
     Inr [JStr ''1705314660000-server2-1'']"
    by (simp add: plainRecord_def test_defs)
  have d: "getNestedValue epochRecord ''@timestamp'' JNull = JNum 0"
    by (simp add: epochRecord_def getNestedValue_def)
  have e: "parseEvents testEnv (JArr [epochRecord, plainRecord]) =
           parseEach testEnv 0 [epochRecord, plainRecord]"
    by (rule parseEvents_array)
  from w c d e show ?thesis
    by (simp del: parseEach.simps)
qed









subsection \<open>Identifiers\<close>

text \<open>
  C2, as the code has it. The id of a CanonicalEvent is the outer envelope identifier
  \<^verbatim>\<open>_id\<close> when the record has one (a truthy value); else the explicit event identifier
  \<^verbatim>\<open>event.id\<close> of the payload when that is truthy; else it is synthesized from the
  timestamp, the host and the ordinal position of the record in the batch.
\<close>

theorem event_id_priority:
  assumes "parseEvent env rawEvent index = Inr (Some e)"
  shows "event_id e =
     (if truthy (getProp rawEvent ''_id'') then getProp rawEvent ''_id''
      else if truthy (getNestedValue (payloadOf rawEvent) ''event.id'' JNull)
      then getNestedValue (payloadOf rawEvent) ''event.id'' JNull
      else JStr (show_int (timestamp e) @ ''-'' @
             toStr (js_or (getFirstString (payloadOf rawEvent)
                             [''host.hostname'', ''host.name'', ''host.ip''] JNull)
                          (JStr ''unknown'')) @
             ''-'' @ show_nat index))"
proof (cases "truthy (getProp rawEvent ''_id'')")
  case True
  with parseEvent_Some [OF assms] show ?thesis by simp
next
  case False
  with parseEvent_Some [OF assms]
  have "generateEventId env (payloadOf rawEvent) (Some (timestamp e)) index = Inr (event_id e)"
    by simp
  from generateEventId_cases [OF this] False show ?thesis by simp
qed

text \<open>The three sources at work: an enveloped record that also has an event id, the
  same payload without envelope, and a record with neither (at position 4).\<close>

theorem event_id_priority_witness:
  "map_sum id (map_option event_id) (parseEvent testEnv envelopedRecord 0) =
     Inr (Some (JStr ''abc123'')) \<and>
   map_sum id (map_option event_id) (parseEvent testEnv eventIdRecord 0) =
     Inr (Some (JStr ''evt-7'')) \<and>
   map_sum id (map_option event_id) (parseEvent testEnv plainRecord 4) =
     Inr (Some (JStr ''1705314660000-server2-4''))"
proof -
  have "\<exists>e. parseEvent testEnv envelopedRecord 0 = Inr (Some e)"
    by (simp add: envelopedRecord_def test_defs)
  then obtain e1 where e1: "parseEvent testEnv envelopedRecord 0 = Inr (Some e1)" ..
  have "\<exists>e. parseEvent testEnv eventIdRecord 0 = Inr (Some e)"
    by (simp add: eventIdRecord_def test_defs)
  then obtain e2 where e2: "parseEvent testEnv eventIdRecord 0 = Inr (Some e2)" ..
  have "\<exists>e. parseEvent testEnv plainRecord 4 = Inr (Some e) \<and> timestamp e = 1705314660000"
    by (simp add: plainRecord_def test_defs)
  then obtain e3 where e3: "parseEvent testEnv plainRecord 4 = Inr (Some e3)"
    and t3: "timestamp e3 = 1705314660000" by blast
  have i1: "event_id e1 = JStr ''abc123''"
    using event_id_priority [OF e1] by (simp add: envelopedRecord_def)
  have i2: "event_id e2 = JStr ''evt-7''"
    using event_id_priority [OF e2]
    by (simp add: eventIdRecord_def payloadOf_def js_or_def getNestedValue_def)
  have i3: "event_id e3 = JStr ''1705314660000-server2-4''"
    using event_id_priority [OF e3] t3
    by (simp add: plainRecord_def payloadOf_def js_or_def getNestedValue_def
        getFirstString_def show_int_numeral show_nat_numeral digit_def)
  from e1 e2 e3 i1 i2 i3 show ?thesis by simp
qed

text \<open>Against C2 as stated: the payload of the enveloped record has an explicit event
  identifier, and the event's id is the envelope identifier all the same.\<close>

theorem envelope_id_precedes_event_id:
  "getNestedValue (payloadOf envelopedRecord) ''event.id'' JNull = JStr ''evt-7'' \<and>
   map_sum id (map_option event_id) (parseEvent testEnv envelopedRecord 0) =
     Inr (Some (JStr ''abc123''))"
  by (simp add: envelopedRecord_def test_defs)

subsection \<open>Independence of the wall clock\<close>

lemma newDate_clock: "newDate (env\<lparr>Date_now := t\<rparr>) v = newDate env v"
  by (cases v) (simp_all cong: sum.case_cong)

lemma parseTimestamp_clock:
  "parseTimestamp (env\<lparr>Date_now := t\<rparr>) ev = parseTimestamp env ev"
  by (simp only: parseTimestamp_def newDate_clock)

lemma generateEventId_clock:
  "generateEventId (env\<lparr>Date_now := t\<rparr>) ev (Some ts) index =
   generateEventId env ev (Some ts) index"
  by (simp add: generateEventId_def Let_def)

lemma parseEvent_clock:
  "parseEvent (env\<lparr>Date_now := t\<rparr>) rawEvent index = parseEvent env rawEvent index"
  by (simp only: parseEvent_def parseTimestamp_clock generateEventId_clock)

lemma parseEach_clock:
  "parseEach (env\<lparr>Date_now := t\<rparr>) index rawEvents = parseEach env index rawEvents"
  by (induction rawEvents arbitrary: index) (simp_all add: parseEvent_clock cong: sum.case_cong)

lemma parseLines_clock: "parseLines (env\<lparr>Date_now := t\<rparr>) trimmed = parseLines env trimmed"
  by (simp add: parseLines_def)

lemma rawEventsOf_clock: "rawEventsOf (env\<lparr>Date_now := t\<rparr>) input = rawEventsOf env input"
  by (simp add: rawEventsOf_def parseLines_clock Let_def
      cong: json.case_cong option.case_cong if_cong)

text \<open>
  C7. Ingestion is deterministic. The only inputs of \<^verbatim>\<open>parseEvents\<close> besides the batch are
  the host's parsers and the wall clock, and the result does not depend on the wall clock:
  \<^verbatim>\<open>generateEventId\<close> reads \<^verbatim>\<open>Date.now()\<close> only when it is given no timestamp, and
  \<^verbatim>\<open>parseEvent\<close> always gives it the parsed one. Two invocations on the same batch, at
  any two times, return the same events (or raise the same error): the same number of
  events with the same ids.
\<close>

theorem parseEvents_deterministic:
  "parseEvents (env\<lparr>Date_now := t\<rparr>) input = parseEvents (env\<lparr>Date_now := t'\<rparr>) input"
  by (simp only: parseEvents_def rawEventsOf_clock parseEach_clock)

theorem parseEvents_deterministic_witness:
  "map_sum id (map event_id)
     (parseEvents (testEnv\<lparr>Date_now := 1705314600000\<rparr>) (JArr [plainRecord, envelopedRecord])) =
   Inr [JStr ''1705314660000-server2-0'', JStr ''abc123''] \<and>
   map_sum id (map event_id)
     (parseEvents (testEnv\<lparr>Date_now := 1705400000000\<rparr>) (JArr [plainRecord, envelopedRecord])) =
   Inr [JStr ''1705314660000-server2-0'', JStr ''abc123'']"
proof -
  have "map_sum id (map event_id)
     (parseEvents (testEnv\<lparr>Date_now := 1705314600000\<rparr>) (JArr [plainRecord, envelopedRecord])) =
   Inr [JStr ''1705314660000-server2-0'', JStr ''abc123'']"
    by (simp add: parseEvents_array plainRecord_def envelopedRecord_def test_defs)
  with parseEvents_deterministic [where env = testEnv and t = 1705314600000
      and t' = 1705400000000 and input = "JArr [plainRecord, envelopedRecord]"]
  show ?thesis by simp
qed

subsection \<open>Category\<close>

lemma extractCategory_closed_set:
  assumes "extractCategory event = Inr (Category c)"
  shows "c \<in> set [''network'', ''file'', ''process'', ''authentication'', ''registry'', ''other'']"
proof -
  from assms obtain key where
    k: "(case map_of categoryMap key of
           Some c' \<Rightarrow> Inr (Category c')
         | None \<Rightarrow> if key \<in> set objectPrototypeMembers then Inr (PrototypeMember key)
                   else Inr (Category ''other'')) = (Inr (Category c) :: error + category)"
    by (auto simp: extractCategory_def Let_def split: sum.splits)
  show ?thesis
  proof (cases "map_of categoryMap key")
    case None
    with k show ?thesis by (simp split: if_splits)
  next
    case (Some c')
    with k have "c' = c" by simp
    with Some have "(key, c) \<in> set categoryMap"
      by (auto dest: map_of_SomeD)
    then show ?thesis
      by (auto simp: categoryMap_def)
  qed
qed

text \<open>
  C1. The category of every CanonicalEvent should be one of network, file, process,
  authentication, registry and other, an unmapped value giving other. The code looks the
  value up in an object literal, which also answers for the names it inherits from
  \<^verbatim>\<open>Object.prototype\<close>: the category value \<^verbatim>\<open>constructor\<close> is not in the table, and the
  category of the event is the built-in \<^verbatim>\<open>Object\<close> function instead of \<^verbatim>\<open>'other'\<close>.
\<close>

theorem category_of_inherited_key:
  "extractCategory constructorRecord = Inr (PrototypeMember ''constructor'') \<and>
   map_sum id (map category) (parseEvents testEnv (JArr [constructorRecord])) =
     Inr [PrototypeMember ''constructor'']"
  by (simp add: parseEvents_array constructorRecord_def test_defs)

subsection \<open>Connection extraction\<close>

text \<open>
  C4, as the code has it. For every record whose source and destination address (the
  first element of a sequence) are each a string or absent (\<^verbatim>\<open>null\<close>, empty or otherwise
  falsy), connection extraction yields null exactly when an address is absent, the two are
  equal, or one of them is a loopback address; otherwise it yields a ConnectionInfo
  carrying both addresses and ports, whose protocol is the transport field when that is
  populated, else the protocol field when that is populated, else null.
\<close>

theorem connection_extraction:
  assumes s: "getNestedString event ''source.ip'' JNull = s"
    and d: "getNestedString event ''destination.ip'' JNull = d"
    and ts: "isString s \<or> \<not> truthy s"
    and td: "isString d \<or> \<not> truthy d"
  shows "(extractConnectionInfo event = Inr None \<longleftrightarrow>
            \<not> truthy s \<or> \<not> truthy d \<or> s = d \<or> isLoopback s \<or> isLoopback d) \<and>
         (extractConnectionInfo event \<noteq> Inr None \<longrightarrow>
            (\<exists>c. extractConnectionInfo event = Inr (Some c) \<and>
                 JStr (sourceIp c) = s \<and> JStr (destIp c) = d \<and>
                 sourcePort c = getNestedString event ''source.port'' JNull \<and>
                 destPort c = getNestedString event ''destination.port'' JNull \<and>
                 protocol c =
                   (if populated (getNestedValue event ''network.transport'' JNull)
                    then getNestedValue event ''network.transport'' JNull
                    else if populated (getNestedValue event ''network.protocol'' JNull)
                    then getNestedValue event ''network.protocol'' JNull
                    else JNull)))"
proof (cases "truthy s \<and> truthy d")
  case False
  then show ?thesis
    by (auto simp: extractConnectionInfo_def s d)
next
  case True
  with ts td obtain a b where ab: "s = JStr a" "d = JStr b"
    by (cases s; cases d) auto
  from True ab have ne: "a \<noteq> []" "b \<noteq> []"
    by simp_all
  have pr: "getFirstValue event [''network.transport'', ''network.protocol''] JNull =
      (if populated (getNestedValue event ''network.transport'' JNull)
       then getNestedValue event ''network.transport'' JNull
       else if populated (getNestedValue event ''network.protocol'' JNull)
       then getNestedValue event ''network.protocol'' JNull
       else JNull)"
    by (simp add: populated_def Let_def)
  show ?thesis
  proof (cases "a = b \<or> a = ''127.0.0.1'' \<or> b = ''127.0.0.1'' \<or>
                startsWith a ''::1'' \<or> startsWith b ''::1''")
    case True
    then have "extractConnectionInfo event = Inr None"
      using ne by (auto simp: extractConnectionInfo_def s d ab)
    with True show ?thesis
      by (auto simp: ab isLoopback_def)
  next
    case False
    then have "\<exists>c. extractConnectionInfo event = Inr (Some c) \<and>
                 sourceIp c = a \<and> destIp c = b \<and>
                 sourcePort c = getNestedString event ''source.port'' JNull \<and>
                 destPort c = getNestedString event ''destination.port'' JNull \<and>
                 protocol c = getFirstValue event [''network.transport'', ''network.protocol'']
                                JNull"
      using ne by (simp add: extractConnectionInfo_def s d ab del: getFirstValue.simps)
    with False ne show ?thesis
      unfolding pr by (auto simp: ab isLoopback_def)
  qed
qed

text \<open>The flow of the specification's example, a flow to the IPv6 loopback address and
  a flow between equal addresses.\<close>

theorem connection_extraction_witness:
  "map_sum id (map_option (\<lambda>c. (sourceIp c, destIp c, protocol c, destPort c)))
     (extractConnectionInfo tcpFlowRecord) =
     Inr (Some (''192.168.1.100'', ''10.0.0.50'', JStr ''tcp'', JNum 443)) \<and>
   extractConnectionInfo loopbackRecord = Inr None \<and>
   extractConnectionInfo sameIpRecord = Inr None"
proof -
  have a: "getNestedString tcpFlowRecord ''source.ip'' JNull = JStr ''192.168.1.100''"
    "getNestedString tcpFlowRecord ''destination.ip'' JNull = JStr ''10.0.0.50''"
    "getNestedString tcpFlowRecord ''destination.port'' JNull = JNum 443"
    "getNestedValue tcpFlowRecord ''network.transport'' JNull = JStr ''tcp''"
    by (simp_all add: tcpFlowRecord_def getNestedString_def getNestedValue_def)
  have b: "getNestedString loopbackRecord ''source.ip'' JNull = JStr ''10.0.0.7''"
    "getNestedString loopbackRecord ''destination.ip'' JNull = JStr ''::1''"
    by (simp_all add: loopbackRecord_def getNestedString_def getNestedValue_def)
  have c: "getNestedString sameIpRecord ''source.ip'' JNull = JStr ''192.168.1.100''"
    "getNestedString sameIpRecord ''destination.ip'' JNull = JStr ''192.168.1.100''"
    by (simp_all add: sameIpRecord_def getNestedString_def getNestedValue_def)
  have "isString (JStr ''192.168.1.100'') \<or> \<not> truthy (JStr ''192.168.1.100'')"
    "isString (JStr ''10.0.0.50'') \<or> \<not> truthy (JStr ''10.0.0.50'')"
    by simp_all
  from connection_extraction [OF a(1) a(2) this]
  have 1: "map_sum id (map_option (\<lambda>c. (sourceIp c, destIp c, protocol c, destPort c)))
     (extractConnectionInfo tcpFlowRecord) =
     Inr (Some (''192.168.1.100'', ''10.0.0.50'', JStr ''tcp'', JNum 443))"
    by (auto simp: a isLoopback_def startsWith_def populated_def)
  have "isString (JStr ''10.0.0.7'') \<or> \<not> truthy (JStr ''10.0.0.7'')"
    "isString (JStr ''::1'') \<or> \<not> truthy (JStr ''::1'')"
    by simp_all
  from connection_extraction [OF b this]
  have 2: "extractConnectionInfo loopbackRecord = Inr None"
    by (simp add: isLoopback_def startsWith_def)
  have "isString (JStr ''192.168.1.100'') \<or> \<not> truthy (JStr ''192.168.1.100'')"
    by simp
  from connection_extraction [OF c this this]
  have 3: "extractConnectionInfo sameIpRecord = Inr None"
    by simp
  from 1 2 3 show ?thesis by simp
qed

text \<open>Against C4 as stated: with addresses given as numbers, both present, different and
  not loopback, extraction yields neither null nor a ConnectionInfo; \<^verbatim>\<open>startsWith\<close> is
  not a function of a number, and the TypeError ends the whole batch.\<close>

theorem numeric_addresses_raise:
  "getNestedString numericIpRecord ''source.ip'' JNull = JNum 3232235876 \<and>
   getNestedString numericIpRecord ''destination.ip'' JNull = JNum 167772210 \<and>
   extractConnectionInfo numericIpRecord = Inl TypeError \<and>
   parseEvents testEnv (JArr [plainRecord, numericIpRecord]) = Inl TypeError"
  by (simp add: parseEvents_array numericIpRecord_def plainRecord_def test_defs)

subsection \<open>Registry and connections\<close>

lemmas registry_defs =
  buildHostRegistry_def collectEvent_def collectHost_def collectEndpoint_def registryAdd_def
  ipsAdd_def buildIpToHost_def resolveIp_def identifyConnections_def pushConnection_def
  toLowerCase_def lowerChar_def bindE_def js_or_def Let_def



lemma pushConnection_crossHost:
  "crossHost reg e \<Longrightarrow> \<exists>g. pushConnection reg e acc = acc @ [g] \<and>
      edge_eventId g = event_id e \<and> edge_timestamp g = timestamp e \<and>
      edge_sourceHost g = resolveIp reg (edge_sourceIp g) \<and>
      edge_destHost g = resolveIp reg (edge_destIp g) \<and>
      toLowerCase (edge_sourceHost g) \<noteq> toLowerCase (edge_destHost g)"
  by (cases "connection e") (auto simp: crossHost_def pushConnection_def Let_def)

lemma pushConnection_not_crossHost:
  "\<not> crossHost reg e \<Longrightarrow> pushConnection reg e acc = acc"
  by (cases "connection e") (auto simp: crossHost_def pushConnection_def Let_def)

lemma fold_pushConnection:
  "\<exists>new. fold (pushConnection reg) events acc = acc @ new \<and>
      map (\<lambda>g. (edge_eventId g, edge_timestamp g)) new =
        map (\<lambda>e. (event_id e, timestamp e)) (filter (crossHost reg) events) \<and>
      list_all (\<lambda>g. edge_sourceHost g = resolveIp reg (edge_sourceIp g) \<and>
                    edge_destHost g = resolveIp reg (edge_destIp g) \<and>
                    toLowerCase (edge_sourceHost g) \<noteq> toLowerCase (edge_destHost g)) new"
proof (induction events arbitrary: acc)
  case Nil
  show ?case by simp
next
  case (Cons e es)
  show ?case
  proof (cases "crossHost reg e")
    case True
    from pushConnection_crossHost [OF True, of acc] obtain g where
      g: "pushConnection reg e acc = acc @ [g]"
      "edge_eventId g = event_id e" "edge_timestamp g = timestamp e"
      and ok: "edge_sourceHost g = resolveIp reg (edge_sourceIp g) \<and>
        edge_destHost g = resolveIp reg (edge_destIp g) \<and>
        toLowerCase (edge_sourceHost g) \<noteq> toLowerCase (edge_destHost g)"
      by blast
    from Cons.IH [of "acc @ [g]"] obtain new where
      n: "fold (pushConnection reg) es (acc @ [g]) = (acc @ [g]) @ new"
      "map (\<lambda>g. (edge_eventId g, edge_timestamp g)) new =
        map (\<lambda>e. (event_id e, timestamp e)) (filter (crossHost reg) es)"
      "list_all (\<lambda>g. edge_sourceHost g = resolveIp reg (edge_sourceIp g) \<and>
                    edge_destHost g = resolveIp reg (edge_destIp g) \<and>
                    toLowerCase (edge_sourceHost g) \<noteq> toLowerCase (edge_destHost g)) new"
      by blast
    show ?thesis
      using ok by (intro exI [of _ "g # new"]) (auto simp: True g n)
  next
    case False
    from Cons.IH [of acc] obtain new where
      n: "fold (pushConnection reg) es acc = acc @ new"
      "map (\<lambda>g. (edge_eventId g, edge_timestamp g)) new =
        map (\<lambda>e. (event_id e, timestamp e)) (filter (crossHost reg) es)"
      "list_all (\<lambda>g. edge_sourceHost g = resolveIp reg (edge_sourceIp g) \<and>
                    edge_destHost g = resolveIp reg (edge_destIp g) \<and>
                    toLowerCase (edge_sourceHost g) \<noteq> toLowerCase (edge_destHost g)) new"
      by blast
    show ?thesis
      by (rule exI [of _ new]) (simp add: False pushConnection_not_crossHost n)
  qed
qed

text \<open>
  C5. For every event list and every host registry (the one built from the list or any
  other), connection identification emits an edge for an event if and only if the event
  carries a ConnectionInfo and its two addresses resolve to hostnames that differ
  case-insensitively: the edges are, in order, those of the cross-host events, one each,
  with the event's id and timestamp. Every edge carries the hostnames its addresses resolve
  to, so no edge has a sourceHost equal to its destHost case-insensitively, whatever the
  raw addresses were.
\<close>

theorem identifyConnections_cross_host_only:
  "map (\<lambda>g. (edge_eventId g, edge_timestamp g)) (identifyConnections events reg) =
     map (\<lambda>e. (event_id e, timestamp e)) (filter (crossHost reg) events) \<and>
   (\<forall>g \<in> set (identifyConnections events reg).
      edge_sourceHost g = resolveIp reg (edge_sourceIp g) \<and>
      edge_destHost g = resolveIp reg (edge_destIp g) \<and>
      toLowerCase (edge_sourceHost g) \<noteq> toLowerCase (edge_destHost g))"
proof -
  from fold_pushConnection [of reg events "[]"] show ?thesis
    by (auto simp: identifyConnections_def list_all_iff)
qed

text \<open>The client and server of the test, and a third event of the host \<^verbatim>\<open>CLIENT\<close> with a
  flow between two different addresses that both belong to the client: only the first
  event yields an edge.\<close>

theorem identifyConnections_cross_host_only_witness:
  "\<exists>a b c reg.
     parseEvents testEnv (JArr [clientRecord, serverRecord, aliasRecord]) = Inr [a, b, c] \<and>
     buildHostRegistry [a, b, c] = Inr reg \<and>
     map (\<lambda>e. map_option (\<lambda>c. (sourceIp c, destIp c)) (connection e)) [a, b, c] =
       [Some (''192.168.1.100'', ''192.168.1.200''), None,
        Some (''192.168.1.101'', ''192.168.1.100'')] \<and>
     map (crossHost reg) [a, b, c] = [True, False, False] \<and>
     map (\<lambda>g. (edge_eventId g, edge_timestamp g)) (identifyConnections [a, b, c] reg) =
       [(JStr ''1705314600000-client-0'', 1705314600000)] \<and>
     map (\<lambda>g. (edge_sourceHost g, edge_destHost g)) (identifyConnections [a, b, c] reg) =
       [(''client'', ''server'')]"
proof -
  have "\<exists>a b c. parseEach testEnv 0 [clientRecord, serverRecord, aliasRecord] = Inr [a, b, c] \<and>
     map (\<lambda>e. (event_id e, timestamp e, host e,
                map_option (\<lambda>c. (sourceIp c, destIp c, sourceHostname c, destHostname c))
                  (connection e))) [a, b, c] =
       [(JStr ''1705314600000-client-0'', 1705314600000,
         \<lparr>hostname = JStr ''client'', ip = JStr ''192.168.1.100'', displayName = JStr ''client''\<rparr>,
         Some (''192.168.1.100'', ''192.168.1.200'', JNull, JNull)),
        (JStr ''1705314660000-server-1'', 1705314660000,
         \<lparr>hostname = JStr ''server'', ip = JStr ''192.168.1.200'', displayName = JStr ''server''\<rparr>,
         None),
        (JStr ''1705314660000-CLIENT-2'', 1705314660000,
         \<lparr>hostname = JStr ''CLIENT'', ip = JStr ''192.168.1.101'', displayName = JStr ''CLIENT''\<rparr>,
         Some (''192.168.1.101'', ''192.168.1.100'', JNull, JNull))]"
    by (simp add: clientRecord_def serverRecord_def aliasRecord_def test_defs)
  then obtain a b c where
    p: "parseEvents testEnv (JArr [clientRecord, serverRecord, aliasRecord]) = Inr [a, b, c]"
    and a: "event_id a = JStr ''1705314600000-client-0''" "timestamp a = 1705314600000"
      "host a = \<lparr>hostname = JStr ''client'', ip = JStr ''192.168.1.100'',
                 displayName = JStr ''client''\<rparr>"
    and b: "host b = \<lparr>hostname = JStr ''server'', ip = JStr ''192.168.1.200'',
                 displayName = JStr ''server''\<rparr>" "connection b = None"
    and c: "host c = \<lparr>hostname = JStr ''CLIENT'', ip = JStr ''192.168.1.101'',
                 displayName = JStr ''CLIENT''\<rparr>"
    and ca: "\<exists>conn. connection a = Some conn \<and> sourceIp conn = ''192.168.1.100'' \<and>
               destIp conn = ''192.168.1.200'' \<and> sourceHostname conn = JNull \<and>
               destHostname conn = JNull"
    and cc: "\<exists>conn. connection c = Some conn \<and> sourceIp conn = ''192.168.1.101'' \<and>
               destIp conn = ''192.168.1.100'' \<and> sourceHostname conn = JNull \<and>
               destHostname conn = JNull"
    by (auto simp: parseEvents_array)
  from ca obtain conn_a where conn_a: "connection a = Some conn_a"
    "sourceIp conn_a = ''192.168.1.100''" "destIp conn_a = ''192.168.1.200''"
    "sourceHostname conn_a = JNull" "destHostname conn_a = JNull"
    by blast
  from cc obtain conn_c where conn_c: "connection c = Some conn_c"
    "sourceIp conn_c = ''192.168.1.101''" "destIp conn_c = ''192.168.1.100''"
    "sourceHostname conn_c = JNull" "destHostname conn_c = JNull"
    by blast
  let ?reg = "\<lparr>hosts =
       [(''client'', \<lparr>entry_hostname = ''client'',
                       entry_ips = [JStr ''192.168.1.100'', JStr ''192.168.1.101''],
                       entry_displayName = JStr ''client''\<rparr>),
        (''server'', \<lparr>entry_hostname = ''server'', entry_ips = [JStr ''192.168.1.200''],
                       entry_displayName = JStr ''server''\<rparr>)],
      ipToHost = [(JStr ''192.168.1.100'', ''client''), (JStr ''192.168.1.101'', ''client''),
                  (JStr ''192.168.1.200'', ''server'')]\<rparr>"
  have r: "buildHostRegistry [a, b, c] = Inr ?reg"
    by (simp add: registry_defs a b c conn_a conn_c)
  have x: "map (crossHost ?reg) [a, b, c] = [True, False, False]"
    by (simp add: crossHost_def resolveIp_def toLowerCase_def lowerChar_def b conn_a conn_c)
  have h: "map (\<lambda>g. (edge_sourceHost g, edge_destHost g)) (identifyConnections [a, b, c] ?reg) =
       [(''client'', ''server'')]"
    by (simp add: identifyConnections_def pushConnection_def resolveIp_def toLowerCase_def
        lowerChar_def b conn_a conn_c)
  from identifyConnections_cross_host_only [of "[a, b, c]" ?reg] x
  have i: "map (\<lambda>g. (edge_eventId g, edge_timestamp g)) (identifyConnections [a, b, c] ?reg) =
       [(JStr ''1705314600000-client-0'', 1705314600000)]"
    by (simp add: a)
  from p r x h i conn_a conn_c b show ?thesis
    by (intro exI [of _ a] exI [of _ b] exI [of _ c] exI [of _ ?reg]) simp
qed

subsection \<open>Decimal numerals\<close>









subsection \<open>Uniqueness of identifiers\<close>







end
